theory Spec2Isabelle
  imports Complex_Main
begin

section \<open>JavaScript values, errors and effects\<close>

text \<open>
  The two handlers of the repository are JavaScript: values are untyped, so the model
  keeps one datatype of values. Strings are lists of code units; a \<^typ>\<open>char\<close> stands
  for a code unit below 256. Property lists of objects are association lists whose first
  entry for a key is the property.
\<close>

datatype jsval =
    Undefined
  | Null
  | Bool bool
  | Num real
  | Str string
  | Arr "jsval list"
  | Obj "(string \<times> jsval) list"

text \<open>Thrown values: every value thrown in these files is an error object carrying a message.\<close>

datatype thrown =
    Error string
  | TypeError string
  | SyntaxError string
  | FetchError string

fun message :: "thrown \<Rightarrow> string" where
  "message (Error m) = m"
| "message (TypeError m) = m"
| "message (SyntaxError m) = m"
| "message (FetchError m) = m"

text \<open>
  An outgoing request as \<open>fetch\<close> receives it. The body, where there is one, is kept as
  the value handed to \<open>JSON.stringify\<close>.
\<close>

record request =
  req_url :: string
  req_method :: string
  req_headers :: "(string \<times> string) list"
  req_body :: "jsval option"

text \<open>
  What the network answers: \<open>fetch\<close> rejects (network error, abort by the timeout,
  invalid URL), or resolves to a response with a status whose body read \<open>resp.text()\<close>
  either yields the text or rejects.
\<close>

datatype body_read = Text string | TextFails string

datatype fetch_outcome = Rejects string | Resolves nat body_read

definition ok :: "nat \<Rightarrow> bool" where
  "ok status = (200 \<le> status \<and> status \<le> 299)"

text \<open>
  The world outside the handler: the process environment, the network as a function of
  the request (a deterministic upstream), and the two built-ins that are not spelled out
  here: \<open>JSON.parse\<close> (\<open>Inl\<close> is the message of its SyntaxError) and the conversion of a
  number to a string.
\<close>

record world =
  GOOGLE_MAPS_API_KEY :: "string option"
  fetch :: "request \<Rightarrow> fetch_outcome"
  JSON_parse :: "string \<Rightarrow> string + jsval"
  Number_toString :: "real \<Rightarrow> string"

text \<open>Observable effects, in the order they happen. Log lines are not recorded.\<close>

datatype effect = Sleep nat | Fetch request

type_synonym 'a io = "(thrown + 'a) \<times> effect list"

definition bind_io :: "'a io \<Rightarrow> ('a \<Rightarrow> 'b io) \<Rightarrow> 'b io" where
  "bind_io m f =
     (case m of
        (Inl e, t) \<Rightarrow> (Inl e, t)
      | (Inr x, t) \<Rightarrow> (case f x of (r, t') \<Rightarrow> (r, t @ t')))"

subsection \<open>Truthiness, property access, conversion to string\<close>

fun truthy :: "jsval \<Rightarrow> bool" where
  "truthy Undefined = False"
| "truthy Null = False"
| "truthy (Bool b) = b"
| "truthy (Num x) = (x \<noteq> 0)"
| "truthy (Str s) = (s \<noteq> [])"
| "truthy (Arr xs) = True"
| "truthy (Obj kvs) = True"

text \<open>\<open>a || b\<close>\<close>

definition or_else :: "jsval \<Rightarrow> jsval \<Rightarrow> jsval" where
  "or_else a b = (if truthy a then a else b)"

definition nullish :: "jsval \<Rightarrow> bool" where
  "nullish v = (v = Undefined \<or> v = Null)"

text \<open>
  Reading property \<open>k\<close> of a value that is neither null nor undefined. None of the keys
  read in these files is an inherited property or a property of strings or arrays, so a
  primitive or an array yields undefined.
\<close>

fun get_member :: "jsval \<Rightarrow> string \<Rightarrow> jsval" where
  "get_member (Obj kvs) k = (case map_of kvs k of Some v \<Rightarrow> v | None \<Rightarrow> Undefined)"
| "get_member v k = Undefined"

text \<open>\<open>v.k\<close>: a TypeError on null and undefined (message as V8 words it).\<close>

definition property_access :: "jsval \<Rightarrow> string \<Rightarrow> thrown + jsval" where
  "property_access v k =
     (if v = Undefined then
        Inl (TypeError (''Cannot read properties of undefined (reading '' @ [CHR 0x27] @ k @ [CHR 0x27] @ '')''))
      else if v = Null then
        Inl (TypeError (''Cannot read properties of null (reading '' @ [CHR 0x27] @ k @ [CHR 0x27] @ '')''))
      else Inr (get_member v k))"

text \<open>
  \<open>const { prop, ... } = src\<close> on null or undefined: the TypeError names the first
  property of the pattern (message as V8 words it).
\<close>

definition cannot_destructure :: "string \<Rightarrow> string \<Rightarrow> jsval \<Rightarrow> thrown" where
  "cannot_destructure prop src v =
     TypeError (''Cannot destructure property '' @ [CHR 0x27] @ prop @ [CHR 0x27] @ '' of ''
                  @ [CHR 0x27] @ src @ [CHR 0x27] @ '' as it is ''
                  @ (if v = Null then ''null'' else ''undefined'') @ ''.'')"

text \<open>\<open>v?.k\<close>\<close>

definition optional_chain :: "jsval \<Rightarrow> string \<Rightarrow> jsval" where
  "optional_chain v k = (if nullish v then Undefined else get_member v k)"

fun join_comma :: "string list \<Rightarrow> string" where
  "join_comma [] = []"
| "join_comma [s] = s"
| "join_comma (s # t # ss) = s @ '','' @ join_comma (t # ss)"

text \<open>The results of a sequence of conversions, or the first error among them.\<close>

fun collect :: "(thrown + 'a) list \<Rightarrow> thrown + 'a list" where
  "collect [] = Inr []"
| "collect (Inl e # rs) = Inl e"
| "collect (Inr x # rs) = (case collect rs of Inl e \<Rightarrow> Inl e | Inr xs \<Rightarrow> Inr (x # xs))"

text \<open>
  \<open>String(v)\<close> and the conversion inside a template literal. An object is converted
  through its \<open>toString\<close> method: the inherited one gives \<open>[object Object]\<close>, but an own
  property \<open>toString\<close> (never callable in parsed JSON) hides it, the inherited \<open>valueOf\<close>
  returns the object itself, and the conversion throws a TypeError. An array is joined
  with commas, null and undefined elements as empty strings, and throws where an element
  does.
\<close>

fun ToString :: "world \<Rightarrow> jsval \<Rightarrow> thrown + string" where
  "ToString w Undefined = Inr ''undefined''"
| "ToString w Null = Inr ''null''"
| "ToString w (Bool b) = Inr (if b then ''true'' else ''false'')"
| "ToString w (Num x) = Inr (Number_toString w x)"
| "ToString w (Str s) = Inr s"
| "ToString w (Arr xs) =
     (case collect (map (\<lambda>x. if x = Undefined \<or> x = Null then Inr [] else ToString w x) xs) of
        Inl e \<Rightarrow> Inl e
      | Inr ss \<Rightarrow> Inr (join_comma ss))"
| "ToString w (Obj kvs) =
     (if map_of kvs ''toString'' \<noteq> None
      then Inl (TypeError ''Cannot convert object to primitive value'')
      else Inr ''[object Object]'')"

text \<open>Decimal digits of a status code.\<close>

fun show_nat :: "nat \<Rightarrow> string" where
  "show_nat n =
     (if n < 10 then [''0123456789'' ! n]
      else show_nat (n div 10) @ [''0123456789'' ! (n mod 10)])"

text \<open>
  \<open>String.prototype.trim\<close>: the white space and line terminators among the code units
  below 256.
\<close>

definition is_space :: "char \<Rightarrow> bool" where
  "is_space c = ((of_char c :: nat) \<in> {9, 10, 11, 12, 13, 32, 160})"

definition trim :: "string \<Rightarrow> string" where
  "trim s = rev (dropWhile is_space (rev (dropWhile is_space s)))"

subsection \<open>Character classes of the two regular expressions (flag \<open>i\<close>)\<close>

definition alpha :: "char \<Rightarrow> bool" where
  "alpha c = (c \<in> set ''ABCDEFGHIJKLMNOPQRSTUVWXYZabcdefghijklmnopqrstuvwxyz'')"

definition digit :: "char \<Rightarrow> bool" where
  "digit c = (c \<in> set ''0123456789'')"

text \<open>\<open>[A-Z0-9._%+-]\<close>\<close>

definition local_ch :: "char \<Rightarrow> bool" where
  "local_ch c = (alpha c \<or> digit c \<or> c \<in> set ''._%+-'')"

text \<open>\<open>[A-Z0-9.-]\<close>\<close>

definition dom_ch :: "char \<Rightarrow> bool" where
  "dom_ch c = (alpha c \<or> digit c \<or> c \<in> set ''.-'')"

text \<open>\<open>\w\<close>, which decides \<open>\b\<close>\<close>

definition word_ch :: "char \<Rightarrow> bool" where
  "word_ch c = (alpha c \<or> digit c \<or> c = CHR ''_'')"

text \<open>A literal character of the pattern under flag \<open>i\<close>: both cases of a letter.\<close>

definition to_upper :: "char \<Rightarrow> char" where
  "to_upper c =
     (case map_of (zip ''abcdefghijklmnopqrstuvwxyz'' ''ABCDEFGHIJKLMNOPQRSTUVWXYZ'') c of
        Some u \<Rightarrow> u
      | None \<Rightarrow> c)"

definition ci_eq :: "char \<Rightarrow> char \<Rightarrow> bool" where
  "ci_eq x c = (to_upper x = to_upper c)"

subsection \<open>The backtracking matcher\<close>

text \<open>
  A matcher is run on the character before the current position (none at the start of
  the input) and on the rest of the input; a continuation receives both after the part
  matched so far and decides the rest of the pattern. A greedy repetition tries the
  longest run first and gives characters back one at a time while the continuation fails.
\<close>

type_synonym 'r cont = "char option \<Rightarrow> string \<Rightarrow> 'r option"

fun m_char :: "(char \<Rightarrow> bool) \<Rightarrow> 'r cont \<Rightarrow> 'r cont" where
  "m_char p k prev [] = None"
| "m_char p k prev (c # cs) = (if p c then k (Some c) cs else None)"

fun m_star :: "(char \<Rightarrow> bool) \<Rightarrow> 'r cont \<Rightarrow> 'r cont" where
  "m_star p k prev [] = k prev []"
| "m_star p k prev (c # cs) =
     (if p c then
        (case m_star p k (Some c) cs of
           Some r \<Rightarrow> Some r
         | None \<Rightarrow> k prev (c # cs))
      else k prev (c # cs))"

text \<open>\<open>p+\<close> and \<open>p{2,}\<close>\<close>

definition m_plus :: "(char \<Rightarrow> bool) \<Rightarrow> 'r cont \<Rightarrow> 'r cont" where
  "m_plus p k = m_char p (m_star p k)"

definition m_min2 :: "(char \<Rightarrow> bool) \<Rightarrow> 'r cont \<Rightarrow> 'r cont" where
  "m_min2 p k = m_char p (m_char p (m_star p k))"

fun m_lit :: "string \<Rightarrow> 'r cont \<Rightarrow> 'r cont" where
  "m_lit [] k = k"
| "m_lit (x # xs) k = m_char (ci_eq x) (m_lit xs k)"

text \<open>\<open>\b\<close>: exactly one of the characters on the two sides is a word character.\<close>

definition at_boundary :: "char option \<Rightarrow> string \<Rightarrow> bool" where
  "at_boundary prev s =
     ((case prev of None \<Rightarrow> False | Some c \<Rightarrow> word_ch c)
        \<noteq> (case s of [] \<Rightarrow> False | c # cs \<Rightarrow> word_ch c))"

definition m_wordb :: "'r cont \<Rightarrow> 'r cont" where
  "m_wordb k prev s = (if at_boundary prev s then k prev s else None)"

text \<open>\<open>[A-Z0-9._%+-]+@[A-Z0-9.-]+\.[A-Z]{2,}\<close>, the part both patterns share.\<close>

definition m_address :: "'r cont \<Rightarrow> 'r cont" where
  "m_address k =
     m_plus local_ch
       (m_char (\<lambda>c. c = CHR ''@'')
          (m_plus dom_ch
             (m_char (\<lambda>c. c = CHR ''.'')
                (m_min2 alpha k))))"

text \<open>
  \<open>/mailto:([A-Z0-9._%+-]+@[A-Z0-9.-]+\.[A-Z]{2,})/i\<close> at one position; the result is
  capture group 1.
\<close>

definition mailto_re :: "string cont" where
  "mailto_re =
     m_lit ''mailto:''
       (\<lambda>p1 s1. m_address (\<lambda>p2 s2. Some (take (length s1 - length s2) s1)) p1 s1)"

text \<open>
  \<open>/\b[A-Z0-9._%+-]+@[A-Z0-9.-]+\.[A-Z]{2,}\b/i\<close> at one position; the result is the
  whole match.
\<close>

definition plain_re :: "string cont" where
  "plain_re prev s =
     m_wordb (m_address (m_wordb (\<lambda>p2 s2. Some (take (length s - length s2) s)))) prev s"

text \<open>The search of \<open>String.prototype.match\<close>: the first position where the pattern matches.\<close>

fun exec_re :: "'r cont \<Rightarrow> 'r cont" where
  "exec_re m prev [] = m prev []"
| "exec_re m prev (c # cs) =
     (case m prev (c # cs) of
        Some r \<Rightarrow> Some r
      | None \<Rightarrow> exec_re m (Some c) cs)"

definition str_match :: "'r cont \<Rightarrow> string \<Rightarrow> 'r option" where
  "str_match m html = exec_re m None html"

section \<open>The helpers of the handler (src/unnamed/part_000)\<close>

definition sleep :: "nat \<Rightarrow> unit io" where
  "sleep ms = (Inr (), [Sleep ms])"

text \<open>\<open>await fetch(...)\<close> followed by \<open>await resp.text()\<close> where the source reads the text.\<close>

definition do_fetch :: "world \<Rightarrow> request \<Rightarrow> (nat \<times> body_read) io" where
  "do_fetch w req =
     (case fetch w req of
        Rejects m \<Rightarrow> (Inl (FetchError m), [Fetch req])
      | Resolves status b \<Rightarrow> (Inr (status, b), [Fetch req]))"

definition resp_text :: "body_read \<Rightarrow> string io" where
  "resp_text b = (case b of Text s \<Rightarrow> (Inr s, []) | TextFails m \<Rightarrow> (Inl (FetchError m), []))"

definition site_request :: "string \<Rightarrow> request" where
  "site_request url =
     \<lparr>req_url = url, req_method = ''GET'',
      req_headers = [(''User-Agent'', ''Pathfinder/1.0'')], req_body = None\<rparr>"

text \<open>
  \<open>findEmailFromWebsite\<close> (the same in both files but for the abort timer, whose effect
  is a rejected fetch). The guard of its first line is outside the \<open>try\<close>: calling
  \<open>startsWith\<close> on a truthy value that is not a string throws.
\<close>

definition findEmailFromWebsite :: "world \<Rightarrow> jsval \<Rightarrow> string io" where
  "findEmailFromWebsite w url =
     (if \<not> truthy url then (Inr [], [])
      else case url of
        Str u \<Rightarrow>
          (if take 4 u \<noteq> ''http'' then (Inr [], [])
           else
             (case fetch w (site_request u) of
                Rejects m \<Rightarrow> (Inr [], [Fetch (site_request u)])
              | Resolves status b \<Rightarrow>
                  (if \<not> ok status then (Inr [], [Fetch (site_request u)])
                   else
                     (case b of
                        TextFails m \<Rightarrow> (Inr [], [Fetch (site_request u)])
                      | Text html \<Rightarrow>
                          (case str_match mailto_re html of
                             Some captured \<Rightarrow> (Inr captured, [Fetch (site_request u)])
                           | None \<Rightarrow>
                               (case str_match plain_re html of
                                  Some whole \<Rightarrow> (Inr whole, [Fetch (site_request u)])
                                | None \<Rightarrow> (Inr [], [Fetch (site_request u)])))))))
      | _ \<Rightarrow> (Inl (TypeError ''url.startsWith is not a function''), []))"

text \<open>\<open>safeJson\<close>\<close>

definition safeJson :: "world \<Rightarrow> string \<Rightarrow> jsval" where
  "safeJson w text = (case JSON_parse w text of Inl m \<Rightarrow> Null | Inr v \<Rightarrow> v)"

text \<open>
  \<open>cleanGoogleError\<close>; its argument is always the string read from a response. The
  conversion \<open>String(msg)\<close> can throw.
\<close>

definition cleanGoogleError :: "world \<Rightarrow> string \<Rightarrow> thrown + string" where
  "cleanGoogleError w text =
     (let data = safeJson w text;
          msg = or_else
                  (or_else (optional_chain (optional_chain data ''error'') ''message'')
                           (optional_chain data ''message''))
                  (Str text)
      in case ToString w msg of
           Inl e \<Rightarrow> Inl e
         | Inr s \<Rightarrow> Inr (take 500 s))"

definition search_request :: "string \<Rightarrow> string \<Rightarrow> request" where
  "search_request apiKey query =
     \<lparr>req_url = ''https://places.googleapis.com/v1/places:searchText'',
      req_method = ''POST'',
      req_headers =
        [(''Content-Type'', ''application/json''),
         (''X-Goog-Api-Key'', apiKey),
         (''X-Goog-FieldMask'', ''places.id,places.displayName,places.formattedAddress'')],
      req_body =
        Some (Obj [(''textQuery'', Str query), (''regionCode'', Str ''NZ''),
                   (''languageCode'', Str ''en''), (''maxResultCount'', Num 20)])\<rparr>"

definition placesTextSearch :: "world \<Rightarrow> string \<Rightarrow> string \<Rightarrow> jsval io" where
  "placesTextSearch w apiKey query =
     bind_io (do_fetch w (search_request apiKey query)) (\<lambda>(status, b).
     bind_io (resp_text b) (\<lambda>text.
       if \<not> ok status then
         (case cleanGoogleError w text of
            Inl e \<Rightarrow> (Inl e, [])
          | Inr msg \<Rightarrow>
              (Inl (Error (''Places Text Search failed ('' @ show_nat status @ ''): '' @ msg)), []))
       else (Inr (or_else (optional_chain (safeJson w text) ''places'') (Arr [])), [])))"

subsection \<open>\<open>encodeURIComponent\<close> on code units below 256\<close>

definition hex_digit :: "nat \<Rightarrow> char" where
  "hex_digit n = ''0123456789ABCDEF'' ! (n mod 16)"

definition percent :: "nat \<Rightarrow> string" where
  "percent n = [CHR ''%'', hex_digit (n div 16), hex_digit n]"

definition uri_unreserved :: "char \<Rightarrow> bool" where
  "uri_unreserved c = (alpha c \<or> digit c \<or> c \<in> set (''-_.!~*()'' @ [CHR 0x27]))"

definition encode_unit :: "char \<Rightarrow> string" where
  "encode_unit c =
     (let n = (of_char c :: nat) in
      if uri_unreserved c then [c]
      else if n < 128 then percent n
      else percent (192 + n div 64) @ percent (128 + n mod 64))"

definition encodeURIComponent :: "string \<Rightarrow> string" where
  "encodeURIComponent s = concat (map encode_unit s)"

definition details_request :: "string \<Rightarrow> string \<Rightarrow> request" where
  "details_request apiKey url =
     \<lparr>req_url = url, req_method = ''GET'',
      req_headers = [(''X-Goog-Api-Key'', apiKey), (''X-Goog-FieldMask'', ''websiteUri'')],
      req_body = None\<rparr>"

text \<open>
  \<open>placeDetails\<close>. The URL is built first: \<open>encodeURIComponent\<close> converts the id to a
  string, which can throw before any request is made.
\<close>

definition placeDetails :: "world \<Rightarrow> string \<Rightarrow> jsval \<Rightarrow> jsval io" where
  "placeDetails w apiKey placeId =
     bind_io (ToString w placeId, []) (\<lambda>s.
     bind_io (do_fetch w (details_request apiKey
                (''https://places.googleapis.com/v1/places/'' @ encodeURIComponent s))) (\<lambda>(status, b).
     bind_io (resp_text b) (\<lambda>text.
       if \<not> ok status then
         (case cleanGoogleError w text of
            Inl e \<Rightarrow> (Inl e, [])
          | Inr msg \<Rightarrow>
              (Inl (Error (''Place Details failed ('' @ show_nat status @ ''): '' @ msg)), []))
       else (Inr (or_else (safeJson w text) (Obj [])), []))))"

section \<open>The handler (src/unnamed/part_000)\<close>

record event =
  httpMethod :: string
  event_body :: "string option"

datatype payload = Raw string | Stringified jsval

record response =
  statusCode :: nat
  headers :: "(string \<times> string) list"
  body :: payload

definition handler_headers :: "(string \<times> string) list" where
  "handler_headers =
     [(''Access-Control-Allow-Origin'', ''*''),
      (''Access-Control-Allow-Headers'', ''Content-Type''),
      (''Access-Control-Allow-Methods'', ''POST, OPTIONS''),
      (''Content-Type'', ''application/json; charset=utf-8''),
      (''Cache-Control'', ''no-store'')]"

text \<open>\<open>json(headers, statusCode, obj)\<close>; the body stands for \<open>JSON.stringify(obj)\<close>.\<close>

definition json :: "(string \<times> string) list \<Rightarrow> nat \<Rightarrow> jsval \<Rightarrow> response" where
  "json hs code obj = \<lparr>statusCode = code, headers = hs, body = Stringified obj\<rparr>"

text \<open>
  The inner \<open>try\<close> with its \<open>catch\<close>: the values of \<open>website\<close> and \<open>email\<close> when
  the block is left, either at its end or at the statement that threw, and the error the
  \<open>catch\<close> received (and logged), if any.
\<close>

definition enrich ::
  "world \<Rightarrow> string \<Rightarrow> jsval \<Rightarrow> (jsval \<times> jsval \<times> thrown option) \<times> effect list" where
  "enrich w apiKey placeId =
     (case placeDetails w apiKey placeId of
        (Inl e, t1) \<Rightarrow> ((Str [], Str [], Some e), Sleep 120 # t1)
      | (Inr details, t1) \<Rightarrow>
          (case property_access details ''websiteUri'' of
             Inl e \<Rightarrow> ((Str [], Str [], Some e), Sleep 120 # t1)
           | Inr uri \<Rightarrow>
               (let website = or_else uri (Str []) in
                if truthy website then
                  (case findEmailFromWebsite w website of
                     (Inl e, t2) \<Rightarrow>
                       ((website, Str [], Some e), Sleep 120 # t1 @ Sleep 120 # t2)
                   | (Inr email, t2) \<Rightarrow>
                       ((website, Str email, None), Sleep 120 # t1 @ Sleep 120 # t2))
                else ((website, Str [], None), Sleep 120 # t1))))"

text \<open>
  The value of the field \<open>google_maps_url\<close>: the template literal converts a truthy id to
  a string, which can throw.
\<close>

definition google_maps_url :: "world \<Rightarrow> jsval \<Rightarrow> thrown + string" where
  "google_maps_url w placeId =
     (if truthy placeId then
        (case ToString w placeId of
           Inl e \<Rightarrow> Inl e
         | Inr s \<Rightarrow> Inr (''https://www.google.com/maps/place/?q=place_id:'' @ s))
      else Inr [])"

text \<open>
  One turn of the loop over the places: the object pushed onto \<open>results\<close>. The object
  literal is evaluated after the inner \<open>try\<close>, outside it.
\<close>

definition process_place :: "world \<Rightarrow> string \<Rightarrow> jsval \<Rightarrow> jsval \<Rightarrow> jsval io" where
  "process_place w apiKey includeWebsiteEmail p =
     (case property_access p ''id'' of
        Inl e \<Rightarrow> (Inl e, [])
      | Inr placeId \<Rightarrow>
          (let name = or_else (optional_chain (get_member p ''displayName'') ''text'') (Str []);
               address = or_else (get_member p ''formattedAddress'') (Str [])
           in case (if truthy includeWebsiteEmail \<and> truthy placeId
                    then enrich w apiKey placeId
                    else ((Str [], Str [], None), [])) of
                ((website, email, caught), t) \<Rightarrow>
                  (case google_maps_url w placeId of
                     Inl e \<Rightarrow> (Inl e, t)
                   | Inr url \<Rightarrow>
                       (Inr (Obj [(''name'', name),
                                  (''address'', address),
                                  (''website'', website),
                                  (''email'', email),
                                  (''google_maps_url'', Str url)]), t))))"

fun process_places :: "world \<Rightarrow> string \<Rightarrow> jsval \<Rightarrow> jsval list \<Rightarrow> (jsval list) io" where
  "process_places w apiKey includeWebsiteEmail [] = (Inr [], [])"
| "process_places w apiKey includeWebsiteEmail (p # ps) =
     bind_io (process_place w apiKey includeWebsiteEmail p) (\<lambda>r.
     bind_io (process_places w apiKey includeWebsiteEmail ps) (\<lambda>rs.
       (Inr (r # rs), [])))"

text \<open>
  What \<open>for (const p of places)\<close> iterates over: the elements of an array, the
  characters of a string; any other truthy value is not iterable.
\<close>

definition for_of :: "jsval \<Rightarrow> (jsval list) io" where
  "for_of places =
     (case places of
        Arr xs \<Rightarrow> (Inr xs, [])
      | Str s \<Rightarrow> (Inr (map (\<lambda>c. Str [c]) s), [])
      | _ \<Rightarrow> (Inl (TypeError ''places is not iterable''), []))"

text \<open>
  The template literal of the query: \<open>String(businessType).trim()\<close>, then
  \<open>String(city).trim()\<close>; either conversion can throw.
\<close>

definition build_query :: "world \<Rightarrow> jsval \<Rightarrow> jsval \<Rightarrow> thrown + string" where
  "build_query w businessType city =
     (case ToString w businessType of
        Inl e \<Rightarrow> Inl e
      | Inr b \<Rightarrow>
          (case ToString w city of
             Inl e \<Rightarrow> Inl e
           | Inr c \<Rightarrow> Inr (trim b @ '' in '' @ trim c @ '', New Zealand'')))"

text \<open>\<open>event.body || "{}"\<close>\<close>

definition body_or_default :: "event \<Rightarrow> string" where
  "body_or_default event =
     (case event_body event of None \<Rightarrow> ''{}'' | Some b \<Rightarrow> if b = [] then ''{}'' else b)"

text \<open>
  The outer \<open>try\<close> block. The hint of the first response is written with \<open>->\<close> where
  the source has an arrow character.
\<close>

definition handler_try :: "world \<Rightarrow> event \<Rightarrow> response io" where
  "handler_try w event =
     (let missing = json handler_headers 500
            (Obj [(''error'', Str ''Missing GOOGLE_MAPS_API_KEY''),
                  (''hint'', Str ''Add GOOGLE_MAPS_API_KEY in Netlify -> Site configuration -> Environment variables, then redeploy.'')])
      in case GOOGLE_MAPS_API_KEY w of
        None \<Rightarrow> (Inr missing, [])
      | Some API_KEY \<Rightarrow>
          if API_KEY = [] then (Inr missing, [])
          else
            (case JSON_parse w (body_or_default event) of
               Inl m \<Rightarrow>
                 (Inr (json handler_headers 400
                    (Obj [(''error'', Str ''Invalid JSON body''),
                          (''hint'', Str ''Ensure request body is valid JSON with businessType and city.'')])), [])
             | Inr parsed \<Rightarrow>
                 if nullish parsed then
                   (Inl (cannot_destructure ''businessType'' ''body'' parsed), [])
                 else
                   (let businessType = get_member parsed ''businessType'';
                        city = get_member parsed ''city'';
                        includeWebsiteEmail = get_member parsed ''includeWebsiteEmail''
                    in if \<not> truthy businessType \<or> \<not> truthy city then
                         (Inr (json handler_headers 400
                            (Obj [(''error'', Str ''businessType and city required''),
                                  (''example'',
                                     Obj [(''businessType'', Str ''kitchen designer''),
                                          (''city'', Str ''Christchurch''),
                                          (''includeWebsiteEmail'', Bool False)])])), [])
                       else
                         bind_io (build_query w businessType city, []) (\<lambda>query.
                         bind_io (placesTextSearch w API_KEY query) (\<lambda>places.
                         bind_io (for_of places) (\<lambda>ps.
                         bind_io (process_places w API_KEY includeWebsiteEmail ps) (\<lambda>results.
                           (Inr (json handler_headers 200
                              (Obj [(''query'', Str query),
                                    (''count'', Num (real (length results))),
                                    (''results'', Arr results)])), []))))))))"

definition handler :: "world \<Rightarrow> event \<Rightarrow> response \<times> effect list" where
  "handler w event =
     (if httpMethod event = ''OPTIONS'' then
        (\<lparr>statusCode = 204, headers = handler_headers, body = Raw []\<rparr>, [])
      else if httpMethod event \<noteq> ''POST'' then
        (json handler_headers 405 (Obj [(''error'', Str ''Method not allowed. Use POST.'')]), [])
      else
        (case handler_try w event of
           (Inr resp, t) \<Rightarrow> (resp, t)
         | (Inl err, t) \<Rightarrow>
             (json handler_headers 500
                (Obj [(''error'', or_else (Str (message err)) (Str ''Server error'')),
                      (''hint'', Str ''Check Netlify Functions logs for details.'')]), t)))"

section \<open>The older handler (src/pathfinder/netlify/functions/search.js)\<close>

text \<open>
  The file under \<open>pathfinder/\<close> defines the same names; its definitions carry the suffix
  \<open>_pathfinder\<close>. It has no inner \<open>try\<close>, parses upstream bodies with a bare
  \<open>JSON.parse\<close>, and its responses have neither \<open>hint\<close>, \<open>example\<close> nor \<open>count\<close>.
  Its \<open>findEmailFromWebsite\<close> is the one above.
\<close>

definition headers_pathfinder :: "(string \<times> string) list" where
  "headers_pathfinder =
     [(''Access-Control-Allow-Origin'', ''*''),
      (''Access-Control-Allow-Headers'', ''Content-Type''),
      (''Access-Control-Allow-Methods'', ''POST, OPTIONS''),
      (''Content-Type'', ''application/json; charset=utf-8'')]"

definition placesTextSearch_pathfinder :: "world \<Rightarrow> string \<Rightarrow> string \<Rightarrow> jsval io" where
  "placesTextSearch_pathfinder w apiKey query =
     bind_io (do_fetch w (search_request apiKey query)) (\<lambda>(status, b).
     bind_io (resp_text b) (\<lambda>text.
       if \<not> ok status then (Inl (Error text), [])
       else
         (case JSON_parse w text of
            Inl m \<Rightarrow> (Inl (SyntaxError m), [])
          | Inr data \<Rightarrow>
              (case property_access data ''places'' of
                 Inl e \<Rightarrow> (Inl e, [])
               | Inr places \<Rightarrow> (Inr (or_else places (Arr [])), [])))))"

definition placeDetails_pathfinder :: "world \<Rightarrow> string \<Rightarrow> jsval \<Rightarrow> jsval io" where
  "placeDetails_pathfinder w apiKey placeId =
     bind_io (ToString w placeId, []) (\<lambda>s.
     bind_io (do_fetch w (details_request apiKey
                (''https://places.googleapis.com/v1/places/'' @ s))) (\<lambda>(status, b).
     bind_io (resp_text b) (\<lambda>text.
       if \<not> ok status then (Inl (Error text), [])
       else
         (case JSON_parse w text of
            Inl m \<Rightarrow> (Inl (SyntaxError m), [])
          | Inr details \<Rightarrow> (Inr details, [])))))"

definition enrich_pathfinder :: "world \<Rightarrow> string \<Rightarrow> jsval \<Rightarrow> (jsval \<times> jsval) io" where
  "enrich_pathfinder w apiKey placeId =
     bind_io (sleep 120) (\<lambda>u.
     bind_io (placeDetails_pathfinder w apiKey placeId) (\<lambda>details.
     bind_io (property_access details ''websiteUri'', []) (\<lambda>uri.
       (let website = or_else uri (Str []) in
        bind_io (sleep 120) (\<lambda>u.
        bind_io (findEmailFromWebsite w website) (\<lambda>email.
          (Inr (website, Str email), [])))))))"

definition process_place_pathfinder :: "world \<Rightarrow> string \<Rightarrow> jsval \<Rightarrow> jsval \<Rightarrow> jsval io" where
  "process_place_pathfinder w apiKey includeWebsiteEmail p =
     bind_io (property_access p ''id'', []) (\<lambda>placeId.
       (let name = or_else (optional_chain (get_member p ''displayName'') ''text'') (Str []);
            address = or_else (get_member p ''formattedAddress'') (Str [])
        in bind_io (if truthy includeWebsiteEmail \<and> truthy placeId
                    then enrich_pathfinder w apiKey placeId
                    else (Inr (Str [], Str []), [])) (\<lambda>(website, email).
           bind_io (google_maps_url w placeId, []) (\<lambda>url.
             (Inr (Obj [(''name'', name),
                        (''address'', address),
                        (''website'', website),
                        (''email'', email),
                        (''google_maps_url'', Str url)]), [])))))"

fun process_places_pathfinder ::
  "world \<Rightarrow> string \<Rightarrow> jsval \<Rightarrow> jsval list \<Rightarrow> (jsval list) io" where
  "process_places_pathfinder w apiKey includeWebsiteEmail [] = (Inr [], [])"
| "process_places_pathfinder w apiKey includeWebsiteEmail (p # ps) =
     bind_io (process_place_pathfinder w apiKey includeWebsiteEmail p) (\<lambda>r.
     bind_io (process_places_pathfinder w apiKey includeWebsiteEmail ps) (\<lambda>rs.
       (Inr (r # rs), [])))"

text \<open>The template literal of the query in the older handler: no trimming.\<close>

definition build_query_pathfinder :: "world \<Rightarrow> jsval \<Rightarrow> jsval \<Rightarrow> thrown + string" where
  "build_query_pathfinder w businessType city =
     (case ToString w businessType of
        Inl e \<Rightarrow> Inl e
      | Inr b \<Rightarrow>
          (case ToString w city of
             Inl e \<Rightarrow> Inl e
           | Inr c \<Rightarrow> Inr (b @ '' in '' @ c @ '', New Zealand'')))"

definition handler_try_pathfinder :: "world \<Rightarrow> event \<Rightarrow> response io" where
  "handler_try_pathfinder w event =
     (if httpMethod event \<noteq> ''POST'' then
        (Inr (json headers_pathfinder 405 (Obj [(''error'', Str ''Method not allowed'')])), [])
      else
        (let missing = json headers_pathfinder 500
               (Obj [(''error'', Str ''Missing GOOGLE_MAPS_API_KEY'')])
         in case GOOGLE_MAPS_API_KEY w of
           None \<Rightarrow> (Inr missing, [])
         | Some API_KEY \<Rightarrow>
             if API_KEY = [] then (Inr missing, [])
             else
               (case JSON_parse w (body_or_default event) of
                  Inl m \<Rightarrow> (Inl (SyntaxError m), [])
                | Inr parsed \<Rightarrow>
                    if nullish parsed then
                      (Inl (cannot_destructure ''businessType'' ''JSON.parse(...)'' parsed), [])
                    else
                      (let businessType = get_member parsed ''businessType'';
                           city = get_member parsed ''city'';
                           includeWebsiteEmail = get_member parsed ''includeWebsiteEmail''
                       in if \<not> truthy businessType \<or> \<not> truthy city then
                            (Inr (json headers_pathfinder 400
                               (Obj [(''error'', Str ''businessType and city required'')])), [])
                          else
                            bind_io (build_query_pathfinder w businessType city, []) (\<lambda>query.
                            bind_io (placesTextSearch_pathfinder w API_KEY query) (\<lambda>places.
                            bind_io (for_of places) (\<lambda>ps.
                            bind_io (process_places_pathfinder w API_KEY includeWebsiteEmail ps)
                              (\<lambda>results.
                                 (Inr (json headers_pathfinder 200
                                    (Obj [(''query'', Str query),
                                          (''results'', Arr results)])), [])))))))))"

definition handler_pathfinder :: "world \<Rightarrow> event \<Rightarrow> response \<times> effect list" where
  "handler_pathfinder w event =
     (if httpMethod event = ''OPTIONS'' then
        (\<lparr>statusCode = 204, headers = headers_pathfinder, body = Raw []\<rparr>, [])
      else
        (case handler_try_pathfinder w event of
           (Inr resp, t) \<Rightarrow> (resp, t)
         | (Inl err, t) \<Rightarrow>
             (json headers_pathfinder 500
                (Obj [(''error'', or_else (Str (message err)) (Str ''Server error''))]), t)))"

section \<open>Vocabulary of the statements\<close>


text \<open>
  A POST request that passes the checks of the handler: the credential is configured,
  the body parses to a value that can be destructured, and both required fields are truthy.
\<close>

definition accepted :: "world \<Rightarrow> event \<Rightarrow> string \<Rightarrow> jsval \<Rightarrow> bool" where
  "accepted w event K parsed =
     (httpMethod event = ''POST''
      \<and> GOOGLE_MAPS_API_KEY w = Some K \<and> K \<noteq> []
      \<and> JSON_parse w (body_or_default event) = Inr parsed \<and> \<not> nullish parsed
      \<and> truthy (get_member parsed ''businessType'')
      \<and> truthy (get_member parsed ''city''))"

text \<open>The query the handler builds from the parsed body, where the conversions succeed.\<close>

definition search_query :: "world \<Rightarrow> jsval \<Rightarrow> thrown + string" where
  "search_query w parsed =
     build_query w (get_member parsed ''businessType'') (get_member parsed ''city'')"

text \<open>
  The search provider answers the query with a success status and a body whose \<open>places\<close>
  is the array \<open>ps\<close>.
\<close>

definition provider_returns :: "world \<Rightarrow> string \<Rightarrow> string \<Rightarrow> jsval list \<Rightarrow> bool" where
  "provider_returns w K q ps =
     (case fetch w (search_request K q) of
        Resolves st (Text reply) \<Rightarrow>
          ok st \<and> (case JSON_parse w reply of
                     Inr data \<Rightarrow> get_member data ''places'' = Arr ps
                   | Inl m \<Rightarrow> False)
      | _ \<Rightarrow> False)"

text \<open>
  A place the loop can turn into an entry: it is not null, and its id can be converted
  to a string (every string, number, boolean and absent id can; an object with an own
  \<open>toString\<close> property cannot).
\<close>

definition place_ok :: "world \<Rightarrow> jsval \<Rightarrow> bool" where
  "place_ok w p =
     (\<not> nullish p \<and> (case ToString w (get_member p ''id'') of Inr s \<Rightarrow> True | Inl e \<Rightarrow> False))"


text \<open>A parsed body that is valid JSON but not an object.\<close>

definition not_an_object :: "jsval \<Rightarrow> bool" where
  "not_an_object v = (case v of Obj kvs \<Rightarrow> False | _ \<Rightarrow> True)"

text \<open>The 400 response of the handler for missing fields, with its example payload.\<close>

definition missing_fields_response :: response where
  "missing_fields_response =
     json handler_headers 400
       (Obj [(''error'', Str ''businessType and city required''),
             (''example'',
                Obj [(''businessType'', Str ''kitchen designer''),
                     (''city'', Str ''Christchurch''),
                     (''includeWebsiteEmail'', Bool False)])])"







text \<open>The character before the current position once the matcher has consumed \<open>a\<close>.\<close>

definition after :: "char option \<Rightarrow> string \<Rightarrow> char option" where
  "after prev a = (if a = [] then prev else Some (last a))"

section \<open>Concrete worlds\<close>

text \<open>
  Worlds on which the theorems below are exercised. \<open>JSON.parse\<close> is given by a table
  from the texts that occur to the values they denote; any other text is malformed.
\<close>

definition parse_table :: "(string \<times> jsval) list \<Rightarrow> string \<Rightarrow> string + jsval" where
  "parse_table docs s =
     (case map_of docs s of Some v \<Rightarrow> Inr v | None \<Rightarrow> Inl ''Unexpected token'')"

definition place1 :: jsval where
  "place1 = Obj [(''id'', Str ''p1''),
                 (''displayName'', Obj [(''text'', Str ''Acme Kitchens'')]),
                 (''formattedAddress'', Str ''1 Main St'')]"

definition place2 :: jsval where
  "place2 = Obj [(''id'', Str ''p2''),
                 (''displayName'', Obj [(''text'', Str ''Bench Co'')]),
                 (''formattedAddress'', Str ''2 High St'')]"

definition place3 :: jsval where
  "place3 = Obj [(''displayName'', Obj [(''text'', Str ''No Id Ltd'')])]"

definition places_text :: string where
  "places_text = ''{\"places\":[{\"id\":\"p1\",\"displayName\":{\"text\":\"Acme Kitchens\"},\"formattedAddress\":\"1 Main St\"},{\"id\":\"p2\",\"displayName\":{\"text\":\"Bench Co\"},\"formattedAddress\":\"2 High St\"},{\"displayName\":{\"text\":\"No Id Ltd\"}}]}''"

definition details1_text :: string where
  "details1_text = ''{\"websiteUri\":\"http://acme.example\"}''"

definition acme_html :: string where
  "acme_html = ''<p>sales@acme.example</p><a href=\"mailto:test@example.com\">Mail us</a>''"

definition body_plain :: string where
  "body_plain = ''{\"businessType\":\"kitchen designer\",\"city\":\"Christchurch\",\"includeWebsiteEmail\":false}''"

definition body_enrich :: string where
  "body_enrich = ''{\"businessType\":\"kitchen designer\",\"city\":\"Christchurch\",\"includeWebsiteEmail\":true}''"

definition body_enrich_reordered :: string where
  "body_enrich_reordered = ''{\"page\":2,\"includeWebsiteEmail\":true,\"city\":\"Christchurch\",\"businessType\":\"kitchen designer\"}''"

definition body_no_type :: string where
  "body_no_type = ''{\"city\":\"Christchurch\"}''"

definition body_blank_type :: string where
  "body_blank_type = ''{\"businessType\":\"   \",\"city\":\"Christchurch\"}''"

definition demo_docs :: "(string \<times> jsval) list" where
  "demo_docs =
     [(''{}'', Obj []),
      (''null'', Null),
      (''5'', Num 5),
      (body_plain, Obj [(''businessType'', Str ''kitchen designer''), (''city'', Str ''Christchurch''),
                        (''includeWebsiteEmail'', Bool False)]),
      (body_enrich, Obj [(''businessType'', Str ''kitchen designer''), (''city'', Str ''Christchurch''),
                         (''includeWebsiteEmail'', Bool True)]),
      (body_enrich_reordered,
         Obj [(''page'', Num 2), (''includeWebsiteEmail'', Bool True), (''city'', Str ''Christchurch''),
              (''businessType'', Str ''kitchen designer'')]),
      (body_no_type, Obj [(''city'', Str ''Christchurch'')]),
      (body_blank_type, Obj [(''businessType'', Str ''   ''), (''city'', Str ''Christchurch'')]),
      (places_text, Obj [(''places'', Arr [place1, place2, place3])]),
      (details1_text, Obj [(''websiteUri'', Str ''http://acme.example'')])]"

text \<open>
  The network of the demonstration: the search answers with three places, the details of
  \<open>p1\<close> name a website, the details of \<open>p2\<close> are refused, the website answers with a page.
\<close>

definition demo_fetch :: "request \<Rightarrow> fetch_outcome" where
  "demo_fetch req =
     (if req_url req = ''https://places.googleapis.com/v1/places:searchText'' then
        Resolves 200 (Text places_text)
      else if req_url req = ''https://places.googleapis.com/v1/places/p1'' then
        Resolves 200 (Text details1_text)
      else if req_url req = ''https://places.googleapis.com/v1/places/p2'' then
        Resolves 503 (Text ''backend unavailable'')
      else if req_url req = ''http://acme.example'' then
        Resolves 200 (Text acme_html)
      else Rejects ''fetch failed'')"

definition demo_world :: world where
  "demo_world =
     \<lparr>GOOGLE_MAPS_API_KEY = Some ''k'', fetch = demo_fetch,
      JSON_parse = parse_table demo_docs,
      Number_toString = (\<lambda>x. show_nat (nat \<lfloor>x\<rfloor>))\<rparr>"

definition unconfigured_world :: world where
  "unconfigured_world = demo_world\<lparr>GOOGLE_MAPS_API_KEY := None\<rparr>"

definition post :: "string \<Rightarrow> event" where
  "post b = \<lparr>httpMethod = ''POST'', event_body = Some b\<rparr>"

definition parsed_plain :: jsval where
  "parsed_plain = Obj [(''businessType'', Str ''kitchen designer''), (''city'', Str ''Christchurch''),
                        (''includeWebsiteEmail'', Bool False)]"

definition parsed_enrich :: jsval where
  "parsed_enrich = Obj [(''businessType'', Str ''kitchen designer''), (''city'', Str ''Christchurch''),
                        (''includeWebsiteEmail'', Bool True)]"

text \<open>The same world with the network down.\<close>

definition offline_world :: world where
  "offline_world = demo_world\<lparr>fetch := (\<lambda>req. Rejects ''fetch failed'')\<rparr>"










section \<open>Properties\<close>

subsection \<open>Basic facts\<close>

lemma optional_chain_get: "optional_chain v k = get_member v k"
  by (cases v) (simp_all add: optional_chain_def nullish_def)

lemma property_access_ok: "\<not> nullish v \<Longrightarrow> property_access v k = Inr (get_member v k)"
  by (simp add: property_access_def nullish_def)

lemma falsy_converts: "\<not> truthy v \<Longrightarrow> \<exists>s. ToString w v = Inr s"
  by (cases v) simp_all

lemma placesTextSearch_ok:
  assumes "fetch w (search_request K q) = Resolves st (Text reply)" and "ok st"
  shows "placesTextSearch w K q =
           (Inr (or_else (get_member (safeJson w reply) ''places'') (Arr [])), [Fetch (search_request K q)])"
  using assms
  by (simp add: placesTextSearch_def do_fetch_def resp_text_def bind_io_def optional_chain_get)











lemma google_maps_url_falsy: "\<not> truthy v \<Longrightarrow> google_maps_url w v = Inr []"
  by (simp add: google_maps_url_def)

lemma google_maps_url_ok:
  "(\<exists>url. google_maps_url w v = Inr url) \<longleftrightarrow> (\<exists>s. ToString w v = Inr s)"
  using falsy_converts [of v w]
  by (auto simp: google_maps_url_def split: sum.splits)

lemma process_place_plain:
  assumes "\<not> nullish p" and "\<not> (truthy incl \<and> truthy (get_member p ''id''))"
    and "google_maps_url w (get_member p ''id'') = Inr url"
  shows "process_place w K incl p =
           (Inr (Obj [(''name'', or_else (optional_chain (get_member p ''displayName'') ''text'') (Str [])),
                      (''address'', or_else (get_member p ''formattedAddress'') (Str [])),
                      (''website'', Str []),
                      (''email'', Str []),
                      (''google_maps_url'', Str url)]), [])"
  using assms by (auto simp: process_place_def property_access_ok Let_def)


lemma process_place_pathfinder_plain:
  assumes "\<not> nullish p" and "\<not> (truthy incl \<and> truthy (get_member p ''id''))"
    and "google_maps_url w (get_member p ''id'') = Inr url"
  shows "process_place_pathfinder w K incl p =
           (Inr (Obj [(''name'', or_else (optional_chain (get_member p ''displayName'') ''text'') (Str [])),
                      (''address'', or_else (get_member p ''formattedAddress'') (Str [])),
                      (''website'', Str []),
                      (''email'', Str []),
                      (''google_maps_url'', Str url)]), [])"
  using assms by (auto simp: process_place_pathfinder_def property_access_ok Let_def bind_io_def)

lemma process_place_ok_iff:
  "(\<exists>r. fst (process_place w K incl p) = Inr r) \<longleftrightarrow> place_ok w p"
proof
  assume "\<exists>r. fst (process_place w K incl p) = Inr r"
  then obtain r where r: "fst (process_place w K incl p) = Inr r" by blast
  then have nn: "\<not> nullish p"
    by (auto simp: process_place_def property_access_def nullish_def split: if_splits)
  from r nn have "\<exists>url. google_maps_url w (get_member p ''id'') = Inr url"
    by (auto simp: process_place_def property_access_ok Let_def split: prod.splits sum.splits)
  then have "\<exists>s. ToString w (get_member p ''id'') = Inr s"
    by (simp add: google_maps_url_ok)
  with nn show "place_ok w p" by (auto simp: place_ok_def)
next
  assume "place_ok w p"
  then have nn: "\<not> nullish p" and "\<exists>s. ToString w (get_member p ''id'') = Inr s"
    by (auto simp: place_ok_def split: sum.splits)
  then obtain url where "google_maps_url w (get_member p ''id'') = Inr url"
    using google_maps_url_ok by blast
  with nn show "\<exists>r. fst (process_place w K incl p) = Inr r"
    by (auto simp: process_place_def property_access_ok Let_def split: prod.splits)
qed

lemma process_places_ok:
  assumes "list_all (place_ok w) ps"
  shows "process_places w K incl ps =
           (Inr (map (\<lambda>p. projr (fst (process_place w K incl p))) ps),
            concat (map (\<lambda>p. snd (process_place w K incl p)) ps))"
  using assms
proof (induction ps)
  case Nil
  then show ?case by simp
next
  case (Cons p ps)
  from Cons.prems have "place_ok w p" by simp
  then obtain r where "fst (process_place w K incl p) = Inr r"
    using process_place_ok_iff by blast
  then obtain t where r: "process_place w K incl p = (Inr r, t)"
    by (cases "process_place w K incl p") simp
  have ih: "process_places w K incl ps =
           (Inr (map (\<lambda>p. projr (fst (process_place w K incl p))) ps),
            concat (map (\<lambda>p. snd (process_place w K incl p)) ps))"
    using Cons by simp
  show ?case
    by (simp add: bind_io_def r ih)
qed

lemma process_places_Inr:
  "process_places w K incl ps = (Inr rs, t) \<Longrightarrow>
     list_all (place_ok w) ps
     \<and> rs = map (\<lambda>p. projr (fst (process_place w K incl p))) ps
     \<and> t = concat (map (\<lambda>p. snd (process_place w K incl p)) ps)"
proof (induction ps arbitrary: rs t)
  case Nil
  then show ?case by simp
next
  case (Cons p ps)
  from Cons.prems obtain r t1 rs' t2 where
    r: "process_place w K incl p = (Inr r, t1)"
    and rs': "process_places w K incl ps = (Inr rs', t2)" and e: "rs = r # rs'" "t = t1 @ t2"
    by (auto simp: bind_io_def split: prod.splits sum.splits)
  from r have "place_ok w p" using process_place_ok_iff [of w K incl p] by simp
  with Cons.IH [OF rs'] r e show ?case by simp
qed

lemma process_places_fails:
  assumes "\<not> list_all (place_ok w) ps"
  shows "\<exists>e t. process_places w K incl ps = (Inl e, t)"
proof (cases "process_places w K incl ps")
  case (Pair r t)
  show ?thesis
  proof (cases r)
    case (Inl e)
    with Pair show ?thesis by blast
  next
    case (Inr rs)
    with Pair assms process_places_Inr show ?thesis by blast
  qed
qed

lemma handler_run:
  assumes "accepted w event K parsed"
    and "search_query w parsed = Inr q"
    and "provider_returns w K q ps"
  shows "handler w event =
           (case process_places w K (get_member parsed ''includeWebsiteEmail'') ps of
              (Inr rs, t) \<Rightarrow>
                (json handler_headers 200
                   (Obj [(''query'', Str q), (''count'', Num (real (length rs))), (''results'', Arr rs)]),
                 Fetch (search_request K q) # t)
            | (Inl e, t) \<Rightarrow>
                (json handler_headers 500
                   (Obj [(''error'', or_else (Str (message e)) (Str ''Server error'')),
                         (''hint'', Str ''Check Netlify Functions logs for details.'')]),
                 Fetch (search_request K q) # t))"
proof -
  from assms(3) obtain st reply data where
    f: "fetch w (search_request K q) = Resolves st (Text reply)" "ok st"
       "JSON_parse w reply = Inr data" "get_member data ''places'' = Arr ps"
    by (auto simp: provider_returns_def
             split: fetch_outcome.splits body_read.splits sum.splits)
  have s: "placesTextSearch w K q = (Inr (Arr ps), [Fetch (search_request K q)])"
    using f by (simp add: placesTextSearch_ok safeJson_def or_else_def)
  show ?thesis
    using assms(1,2) s
    by (cases "process_places w K (get_member parsed ''includeWebsiteEmail'') ps")
       (auto simp: handler_def handler_try_def accepted_def search_query_def Let_def bind_io_def
                   for_of_def split: sum.splits)
qed

lemma handler_accepted:
  assumes "accepted w event K parsed"
    and "search_query w parsed = Inr q"
    and "provider_returns w K q ps"
    and "list_all (place_ok w) ps"
  shows "handler w event =
           (json handler_headers 200
              (Obj [(''query'', Str q), (''count'', Num (real (length ps))),
                    (''results'',
                       Arr (map (\<lambda>p. projr (fst (process_place w K (get_member parsed ''includeWebsiteEmail'') p))) ps))]),
            Fetch (search_request K q)
              # concat (map (\<lambda>p. snd (process_place w K (get_member parsed ''includeWebsiteEmail'') p)) ps))"
  by (simp add: handler_run [OF assms(1-3)] process_places_ok [OF assms(4)])

lemma handler_status:
  assumes "accepted w event K parsed"
    and "search_query w parsed = Inr q"
    and "provider_returns w K q ps"
  shows "statusCode (fst (handler w event)) = (if list_all (place_ok w) ps then 200 else 500)"
proof (cases "list_all (place_ok w) ps")
  case True
  then show ?thesis
    by (simp add: handler_accepted [OF assms True] json_def)
next
  case False
  from process_places_fails [OF False] obtain e t where
    "process_places w K (get_member parsed ''includeWebsiteEmail'') ps = (Inl e, t)" by blast
  with False show ?thesis
    by (simp add: handler_run [OF assms] json_def)
qed


subsection \<open>The concrete worlds evaluated\<close>

lemmas demo_defs = demo_world_def demo_fetch_def demo_docs_def parse_table_def post_def
  body_plain_def body_enrich_def body_enrich_reordered_def body_no_type_def body_blank_type_def
  places_text_def details1_text_def acme_html_def


lemmas place_defs = place1_def place2_def place3_def

lemmas re_defs = alpha_def digit_def local_ch_def dom_ch_def word_ch_def to_upper_def ci_eq_def
  mailto_re_def plain_re_def m_address_def m_plus_def m_min2_def m_wordb_def at_boundary_def str_match_def


declare show_nat.simps [simp del]


lemma demo_accepted_enrich: "accepted demo_world (post body_enrich) ''k'' parsed_enrich"
  by (simp add: accepted_def demo_defs body_or_default_def nullish_def parsed_enrich_def)

lemma demo_query:
  "search_query w parsed_plain = Inr ''kitchen designer in Christchurch, New Zealand''"
  "search_query w parsed_enrich = Inr ''kitchen designer in Christchurch, New Zealand''"
  by (simp_all add: search_query_def build_query_def trim_def is_space_def parsed_plain_def parsed_enrich_def)

lemma demo_provider: "provider_returns demo_world ''k'' q [place1, place2, place3]"
  by (simp add: provider_returns_def demo_defs search_request_def ok_def)

lemma demo_places_ok: "place_ok w place1" "place_ok w place2" "place_ok w place3"
  by (simp_all add: place_ok_def nullish_def place_defs)


lemma demo_mailto: "str_match mailto_re acme_html = Some ''test@example.com''"
  by (simp add: re_defs acme_html_def)

lemma demo_site:
  "findEmailFromWebsite demo_world (Str ''http://acme.example'') =
     (Inr ''test@example.com'', [Fetch (site_request ''http://acme.example'')])"
  by (simp add: findEmailFromWebsite_def demo_world_def demo_fetch_def site_request_def ok_def demo_mailto)















subsection \<open>The shape of the entries\<close>






subsection \<open>Missing credential\<close>

text \<open>
  C6. For every POST request, when the API credential is absent from the environment
  (undefined or empty), the handler answers 500 with an error and a hint, whatever the
  body, and the trace of effects is empty: no search, detail or website request is made.
  The older handler answers 500 as well, without effects (and without a hint).
\<close>

theorem missing_credential_500:
  assumes "httpMethod event = ''POST''"
    and "GOOGLE_MAPS_API_KEY w = None \<or> GOOGLE_MAPS_API_KEY w = Some []"
  shows "handler w event =
           (json handler_headers 500
              (Obj [(''error'', Str ''Missing GOOGLE_MAPS_API_KEY''),
                    (''hint'', Str ''Add GOOGLE_MAPS_API_KEY in Netlify -> Site configuration -> Environment variables, then redeploy.'')]), [])
         \<and> handler_pathfinder w event =
           (json headers_pathfinder 500 (Obj [(''error'', Str ''Missing GOOGLE_MAPS_API_KEY'')]), [])"
  using assms
  by (auto simp: handler_def handler_try_def handler_pathfinder_def handler_try_pathfinder_def Let_def)

theorem missing_credential_500_witness:
  "statusCode (fst (handler unconfigured_world (post ''not json''))) = 500
   \<and> snd (handler unconfigured_world (post ''not json'')) = []
   \<and> statusCode (fst (handler_pathfinder unconfigured_world (post body_plain))) = 500"
  using missing_credential_500 [of "post ''not json''" unconfigured_world]
        missing_credential_500 [of "post body_plain" unconfigured_world]
  by (simp add: unconfigured_world_def post_def json_def)

subsection \<open>Search without enrichment\<close>



subsection \<open>Places without an id\<close>

text \<open>
  C10. For every place whose \<open>id\<close> is missing or empty (falsy), whatever
  includeWebsiteEmail is: the turn of the loop for that place has no effect at all (no
  sleep, no detail lookup, no website request); when the place is an object, the turn
  produces the entry whose website, email and google_maps_url are the empty string
  (when the place is null, reading its id throws); the older handler produces the same
  entry, without effects too. And when such a place is the \<open>i\<close>-th of the places the
  search returns for an accepted request, every 200 response of the handler has that
  entry at position \<open>i\<close> of its results.
\<close>

theorem place_without_id_is_not_enriched:
  assumes "\<not> truthy (get_member p ''id'')"
  shows "snd (process_place w K incl p) = []
       \<and> snd (process_place_pathfinder w K incl p) = []
       \<and> (nullish p \<longrightarrow> (\<exists>e. fst (process_place w K incl p) = Inl e)
                         \<and> (\<exists>e. fst (process_place_pathfinder w K incl p) = Inl e))
       \<and> (\<not> nullish p \<longrightarrow>
            process_place w K incl p =
              (Inr (Obj [(''name'', or_else (optional_chain (get_member p ''displayName'') ''text'') (Str [])),
                         (''address'', or_else (get_member p ''formattedAddress'') (Str [])),
                         (''website'', Str []),
                         (''email'', Str []),
                         (''google_maps_url'', Str [])]), [])
            \<and> process_place_pathfinder w K incl p = process_place w K incl p)
       \<and> (accepted w event K parsed \<and> incl = get_member parsed ''includeWebsiteEmail''
            \<and> search_query w parsed = Inr q \<and> provider_returns w K q ps
            \<and> i < length ps \<and> ps ! i = p
            \<and> statusCode (fst (handler w event)) = 200 \<longrightarrow>
            (\<exists>rs. handler w event =
                     (json handler_headers 200
                        (Obj [(''query'', Str q),
                              (''count'', Num (real (length ps))),
                              (''results'', Arr rs)]),
                      Fetch (search_request K q)
                        # concat (map (\<lambda>p. snd (process_place w K incl p)) ps))
                 \<and> length rs = length ps
                 \<and> rs ! i = Obj [(''name'', or_else (optional_chain (get_member p ''displayName'') ''text'') (Str [])),
                                 (''address'', or_else (get_member p ''formattedAddress'') (Str [])),
                                 (''website'', Str []),
                                 (''email'', Str []),
                                 (''google_maps_url'', Str [])]))"
proof -
  have f: "\<not> (truthy incl \<and> truthy (get_member p ''id''))" using assms by simp
  have u: "google_maps_url w (get_member p ''id'') = Inr []"
    using assms by (rule google_maps_url_falsy)
  have thrown: "(\<exists>e. process_place w K incl p = (Inl e, []))
              \<and> (\<exists>e. process_place_pathfinder w K incl p = (Inl e, []))" if "nullish p"
    using that
    by (auto simp: process_place_def process_place_pathfinder_def property_access_def nullish_def bind_io_def)
  have plain: "process_place w K incl p =
              (Inr (Obj [(''name'', or_else (optional_chain (get_member p ''displayName'') ''text'') (Str [])),
                         (''address'', or_else (get_member p ''formattedAddress'') (Str [])),
                         (''website'', Str []),
                         (''email'', Str []),
                         (''google_maps_url'', Str [])]), [])"
    and older: "process_place_pathfinder w K incl p = process_place w K incl p" if "\<not> nullish p"
    using process_place_plain [OF that f u, of K] process_place_pathfinder_plain [OF that f u, of K]
    by simp_all
  have quiet: "snd (process_place w K incl p) = [] \<and> snd (process_place_pathfinder w K incl p) = []"
    using thrown plain older by (cases "nullish p") auto
  have resp: "\<exists>rs. handler w event =
                     (json handler_headers 200
                        (Obj [(''query'', Str q),
                              (''count'', Num (real (length ps))),
                              (''results'', Arr rs)]),
                      Fetch (search_request K q)
                        # concat (map (\<lambda>p. snd (process_place w K incl p)) ps))
                 \<and> length rs = length ps
                 \<and> rs ! i = Obj [(''name'', or_else (optional_chain (get_member p ''displayName'') ''text'') (Str [])),
                                 (''address'', or_else (get_member p ''formattedAddress'') (Str [])),
                                 (''website'', Str []),
                                 (''email'', Str []),
                                 (''google_maps_url'', Str [])]"
    if a: "accepted w event K parsed" and i: "incl = get_member parsed ''includeWebsiteEmail''"
      and q: "search_query w parsed = Inr q" and pr: "provider_returns w K q ps"
      and n: "i < length ps" and p: "ps ! i = p"
      and s: "statusCode (fst (handler w event)) = 200"
  proof -
    let ?rs = "map (\<lambda>p. projr (fst (process_place w K incl p))) ps"
    have ok: "list_all (place_ok w) ps"
      using handler_status [OF a q pr] s by (simp split: if_splits)
    with n p have "place_ok w p" by (auto simp: list_all_length)
    then have nn: "\<not> nullish p" by (simp add: place_ok_def)
    have h: "handler w event =
             (json handler_headers 200
                (Obj [(''query'', Str q), (''count'', Num (real (length ps))), (''results'', Arr ?rs)]),
              Fetch (search_request K q) # concat (map (\<lambda>p. snd (process_place w K incl p)) ps))"
      using handler_accepted [OF a q pr ok] i by simp
    show ?thesis
      using h n p plain [OF nn] by (intro exI [of _ ?rs]) simp
  qed
  show ?thesis
    apply (intro conjI impI)
    subgoal using quiet by simp
    subgoal using quiet by simp
    subgoal using thrown by auto
    subgoal using thrown by auto
    subgoal using plain by simp
    subgoal using older by simp
    subgoal by (elim conjE, rule resp)
    done
qed

theorem place_without_id_is_not_enriched_witness:
  "process_place demo_world ''k'' (Bool True) place3 =
     (Inr (Obj [(''name'', Str ''No Id Ltd''), (''address'', Str []), (''website'', Str []),
                (''email'', Str []), (''google_maps_url'', Str [])]), [])
   \<and> process_place_pathfinder demo_world ''k'' (Bool True) place3 =
       process_place demo_world ''k'' (Bool True) place3
   \<and> (\<exists>rs t. handler demo_world (post body_enrich) =
                (json handler_headers 200
                   (Obj [(''query'', Str ''kitchen designer in Christchurch, New Zealand''),
                         (''count'', Num 3), (''results'', Arr rs)]), t)
              \<and> length rs = 3
              \<and> rs ! 2 = Obj [(''name'', Str ''No Id Ltd''), (''address'', Str []), (''website'', Str []),
                              (''email'', Str []), (''google_maps_url'', Str [])])"
proof -
  have f: "\<not> truthy (get_member place3 ''id'')"
    by (simp add: place3_def)
  have n: "\<not> nullish place3" by (simp add: place3_def nullish_def)
  have i: "get_member parsed_enrich ''includeWebsiteEmail'' = Bool True"
    by (simp add: parsed_enrich_def)
  have s: "statusCode (fst (handler demo_world (post body_enrich))) = 200"
    using handler_status [OF demo_accepted_enrich demo_query(2) demo_provider]
    by (simp add: demo_places_ok)
  note t = place_without_id_is_not_enriched [OF f, where w = demo_world and K = "''k''"
             and incl = "Bool True" and event = "post body_enrich" and parsed = parsed_enrich
             and q = "''kitchen designer in Christchurch, New Zealand''"
             and ps = "[place1, place2, place3]" and i = 2]
  from t n have a: "process_place demo_world ''k'' (Bool True) place3 =
     (Inr (Obj [(''name'', Str ''No Id Ltd''), (''address'', Str []), (''website'', Str []),
                (''email'', Str []), (''google_maps_url'', Str [])]), [])
   \<and> process_place_pathfinder demo_world ''k'' (Bool True) place3 =
       process_place demo_world ''k'' (Bool True) place3"
    by (simp add: place3_def optional_chain_get or_else_def)
  have hyp: "accepted demo_world (post body_enrich) ''k'' parsed_enrich
             \<and> Bool True = get_member parsed_enrich ''includeWebsiteEmail''
             \<and> search_query demo_world parsed_enrich = Inr ''kitchen designer in Christchurch, New Zealand''
             \<and> provider_returns demo_world ''k'' ''kitchen designer in Christchurch, New Zealand'' [place1, place2, place3]
             \<and> (2::nat) < length [place1, place2, place3] \<and> [place1, place2, place3] ! 2 = place3
             \<and> statusCode (fst (handler demo_world (post body_enrich))) = 200"
    using demo_accepted_enrich demo_query(2) demo_provider s by (simp add: i)
  note e = mp [OF t [THEN conjunct2, THEN conjunct2, THEN conjunct2, THEN conjunct2] hyp]
  from e obtain rs where
    "handler demo_world (post body_enrich) =
                (json handler_headers 200
                   (Obj [(''query'', Str ''kitchen designer in Christchurch, New Zealand''),
                         (''count'', Num (real (length [place1, place2, place3]))), (''results'', Arr rs)]),
                 Fetch (search_request ''k'' ''kitchen designer in Christchurch, New Zealand'')
                   # concat (map (\<lambda>p. snd (process_place demo_world ''k'' (Bool True) p)) [place1, place2, place3]))"
    "length rs = length [place1, place2, place3]"
    "rs ! 2 = Obj [(''name'', or_else (optional_chain (get_member place3 ''displayName'') ''text'') (Str [])),
                                 (''address'', or_else (get_member place3 ''formattedAddress'') (Str [])),
                                 (''website'', Str []),
                                 (''email'', Str []),
                                 (''google_maps_url'', Str [])]"
    by blast
  then have "\<exists>rs t. handler demo_world (post body_enrich) =
                (json handler_headers 200
                   (Obj [(''query'', Str ''kitchen designer in Christchurch, New Zealand''),
                         (''count'', Num 3), (''results'', Arr rs)]), t)
              \<and> length rs = 3
              \<and> rs ! 2 = Obj [(''name'', Str ''No Id Ltd''), (''address'', Str []), (''website'', Str []),
                              (''email'', Str []), (''google_maps_url'', Str [])]"
    by (intro exI [of _ rs] exI [of _ "Fetch (search_request ''k'' ''kitchen designer in Christchurch, New Zealand'')
                   # concat (map (\<lambda>p. snd (process_place demo_world ''k'' (Bool True) p)) [place1, place2, place3])"])
       (simp add: place3_def optional_chain_get or_else_def)
  with a show ?thesis by simp
qed

subsection \<open>Failure of one enrichment\<close>





text \<open>
  The older handler has no inner \<open>try\<close>: on the same request, where the detail lookup of
  the second place is refused, the error reaches the outer \<open>catch\<close> and the whole request
  is answered 500.
\<close>

lemma demo_details_p1_pathfinder:
  "placeDetails_pathfinder demo_world ''k'' (Str ''p1'') =
     (Inr (Obj [(''websiteUri'', Str ''http://acme.example'')]),
      [Fetch (details_request ''k'' ''https://places.googleapis.com/v1/places/p1'')])"
  by (simp add: placeDetails_pathfinder_def bind_io_def do_fetch_def resp_text_def ok_def
        details_request_def demo_defs)

lemma demo_details_p2_pathfinder:
  "placeDetails_pathfinder demo_world ''k'' (Str ''p2'') =
     (Inl (Error ''backend unavailable''),
      [Fetch (details_request ''k'' ''https://places.googleapis.com/v1/places/p2'')])"
  by (simp add: placeDetails_pathfinder_def bind_io_def do_fetch_def resp_text_def ok_def
        details_request_def demo_defs)

lemma demo_search_pathfinder:
  "placesTextSearch_pathfinder demo_world ''k'' q =
     (Inr (Arr [place1, place2, place3]), [Fetch (search_request ''k'' q)])"
  by (simp add: placesTextSearch_pathfinder_def bind_io_def do_fetch_def resp_text_def ok_def
        search_request_def demo_defs property_access_def or_else_def)

lemma pathfinder_failed_lookup_500:
  "fst (handler_pathfinder demo_world (post body_enrich)) =
     json headers_pathfinder 500 (Obj [(''error'', Str ''backend unavailable'')])"
proof -
  have p1: "process_place_pathfinder demo_world ''k'' (Bool True) place1 =
      (Inr (Obj [(''name'', Str ''Acme Kitchens''), (''address'', Str ''1 Main St''),
                 (''website'', Str ''http://acme.example''), (''email'', Str ''test@example.com''),
                 (''google_maps_url'', Str ''https://www.google.com/maps/place/?q=place_id:p1'')]),
       [Sleep 120, Fetch (details_request ''k'' ''https://places.googleapis.com/v1/places/p1''),
        Sleep 120, Fetch (site_request ''http://acme.example'')])"
    by (simp add: process_place_pathfinder_def enrich_pathfinder_def bind_io_def sleep_def
          property_access_def optional_chain_get or_else_def place1_def google_maps_url_def
          demo_details_p1_pathfinder demo_site)
  have p2: "process_place_pathfinder demo_world ''k'' (Bool True) place2 =
      (Inl (Error ''backend unavailable''),
       [Sleep 120, Fetch (details_request ''k'' ''https://places.googleapis.com/v1/places/p2'')])"
    by (simp add: process_place_pathfinder_def enrich_pathfinder_def bind_io_def sleep_def
          property_access_def optional_chain_get or_else_def place2_def google_maps_url_def
          demo_details_p2_pathfinder)
  have a: "accepted demo_world (post body_enrich) ''k'' parsed_enrich"
    by (rule demo_accepted_enrich)
  show ?thesis
    using a
    by (simp add: handler_pathfinder_def handler_try_pathfinder_def accepted_def Let_def
          parsed_enrich_def build_query_pathfinder_def demo_search_pathfinder for_of_def bind_io_def p1 p2 or_else_def)
qed

subsection \<open>The email extractor at its boundary\<close>

text \<open>
  C7. For every URL (a string) the email extractor returns a string and never throws;
  it issues at most the single GET for that URL; and when that GET is rejected (network
  error, timeout), answers with a non-success status, or its body cannot be read, the
  result is the empty string.
\<close>

theorem extractor_never_throws:
  "\<exists>e t. findEmailFromWebsite w (Str u) = (Inr e, t)
     \<and> (t = [] \<or> t = [Fetch (site_request u)])
     \<and> ((\<exists>m. fetch w (site_request u) = Rejects m) \<longrightarrow> e = [])
     \<and> (\<forall>status b. fetch w (site_request u) = Resolves status b \<and> \<not> ok status \<longrightarrow> e = [])
     \<and> (\<forall>status m. fetch w (site_request u) = Resolves status (TextFails m) \<longrightarrow> e = [])"
  by (auto simp: findEmailFromWebsite_def split: fetch_outcome.splits body_read.splits option.splits)

theorem extractor_never_throws_witness:
  "findEmailFromWebsite offline_world (Str ''http://acme.example'')
     = (Inr [], [Fetch (site_request ''http://acme.example'')])"
proof -
  have r: "fetch offline_world (site_request ''http://acme.example'') = Rejects ''fetch failed''"
    by (simp add: offline_world_def)
  have p: "take 4 ''http://acme.example'' = ''http''" by simp
  from extractor_never_throws [of offline_world "''http://acme.example''"]
  obtain e t where
    "findEmailFromWebsite offline_world (Str ''http://acme.example'') = (Inr e, t)"
    "t = [] \<or> t = [Fetch (site_request ''http://acme.example'')]"
    "(\<exists>m. fetch offline_world (site_request ''http://acme.example'') = Rejects m) \<longrightarrow> e = []"
    by blast
  with r show ?thesis
    by (auto simp: findEmailFromWebsite_def)
qed

subsection \<open>Determinism\<close>

text \<open>
  C8. The handler is a function of the world (environment and upstream responses) and
  of the request, and of the request only through its method and the three fields
  businessType, city and includeWebsiteEmail of the parsed body: two requests that agree
  on them, run against the same upstream, give the same status, headers and body and the
  same sequence of effects. The same holds for the older handler.
\<close>

theorem same_fields_same_response:
  assumes "httpMethod e1 = httpMethod e2"
    and "JSON_parse w (body_or_default e1) = Inr b1" and "\<not> nullish b1"
    and "JSON_parse w (body_or_default e2) = Inr b2" and "\<not> nullish b2"
    and "get_member b1 ''businessType'' = get_member b2 ''businessType''"
    and "get_member b1 ''city'' = get_member b2 ''city''"
    and "get_member b1 ''includeWebsiteEmail'' = get_member b2 ''includeWebsiteEmail''"
  shows "handler w e1 = handler w e2 \<and> handler_pathfinder w e1 = handler_pathfinder w e2"
  using assms
  by (simp add: handler_def handler_try_def handler_pathfinder_def handler_try_pathfinder_def Let_def
           split: option.splits)

theorem same_fields_same_response_witness:
  "body_enrich \<noteq> body_enrich_reordered
   \<and> handler demo_world (post body_enrich) = handler demo_world (post body_enrich_reordered)
   \<and> handler_pathfinder demo_world (post body_enrich) = handler_pathfinder demo_world (post body_enrich_reordered)"
proof -
  have m: "httpMethod (post body_enrich) = httpMethod (post body_enrich_reordered)"
    by (simp add: post_def)
  have p1: "JSON_parse demo_world (body_or_default (post body_enrich)) = Inr parsed_enrich"
    by (simp add: demo_defs body_or_default_def parsed_enrich_def)
  have p2: "JSON_parse demo_world (body_or_default (post body_enrich_reordered))
              = Inr (Obj [(''page'', Num 2), (''includeWebsiteEmail'', Bool True), (''city'', Str ''Christchurch''),
                          (''businessType'', Str ''kitchen designer'')])"
    by (simp add: demo_defs body_or_default_def)
  have d: "body_enrich \<noteq> body_enrich_reordered"
    by (simp add: body_enrich_def body_enrich_reordered_def)
  show ?thesis
    using d same_fields_same_response [OF m p1 _ p2]
    by (simp add: nullish_def parsed_enrich_def)
qed

subsection \<open>Missing required fields\<close>

text \<open>
  C2, as stated, fails: a businessType that consists of white space only is truthy,
  passes the test \<open>!businessType || !city\<close> (made before any trimming) and the search
  runs with an empty term; the response below is 200, not 400.
\<close>

theorem blank_field_is_accepted:
  "JSON_parse demo_world (body_or_default (post body_blank_type))
        = Inr (Obj [(''businessType'', Str ''   ''), (''city'', Str ''Christchurch'')])
   \<and> trim ''   '' = []
   \<and> statusCode (fst (handler demo_world (post body_blank_type))) = 200"
proof -
  let ?parsed = "Obj [(''businessType'', Str ''   ''), (''city'', Str ''Christchurch'')]"
  have p: "JSON_parse demo_world (body_or_default (post body_blank_type)) = Inr ?parsed"
    by (simp add: demo_defs body_or_default_def)
  have t: "trim ''   '' = []"
    by (simp add: trim_def is_space_def)
  have a: "accepted demo_world (post body_blank_type) ''k'' ?parsed"
    using p by (simp add: accepted_def nullish_def) (simp add: demo_world_def post_def)
  have q: "search_query demo_world ?parsed = Inr '' in Christchurch, New Zealand''"
    by (simp add: search_query_def build_query_def trim_def is_space_def)
  have ok: "list_all (place_ok demo_world) [place1, place2, place3]"
    by (simp add: demo_places_ok)
  show ?thesis
    using p t handler_accepted [OF a q demo_provider ok] by (simp add: json_def)
qed

text \<open>
  C2, amended. For every POST request whose body is valid JSON (not null) and whose
  businessType or city is missing or falsy (undefined, null, the empty string, 0, false),
  the handler answers 400 with an error and an example payload, without any effect; the
  older handler answers 400 with the error only.
\<close>

theorem falsy_field_400:
  assumes "httpMethod event = ''POST''"
    and "GOOGLE_MAPS_API_KEY w = Some K" and "K \<noteq> []"
    and "JSON_parse w (body_or_default event) = Inr parsed"
    and "\<not> nullish parsed"
    and "\<not> truthy (get_member parsed ''businessType'') \<or> \<not> truthy (get_member parsed ''city'')"
  shows "handler w event = (missing_fields_response, [])
         \<and> handler_pathfinder w event =
             (json headers_pathfinder 400 (Obj [(''error'', Str ''businessType and city required'')]), [])"
  using assms
  by (auto simp: handler_def handler_try_def handler_pathfinder_def handler_try_pathfinder_def
                 missing_fields_response_def Let_def json_def bind_io_def
           split: prod.splits sum.splits)

theorem falsy_field_400_witness:
  "handler demo_world (post body_no_type) = (missing_fields_response, [])"
proof -
  have m: "httpMethod (post body_no_type) = ''POST''" by (simp add: post_def)
  have k: "GOOGLE_MAPS_API_KEY demo_world = Some ''k''" by (simp add: demo_world_def)
  have p: "JSON_parse demo_world (body_or_default (post body_no_type)) = Inr (Obj [(''city'', Str ''Christchurch'')])"
    by (simp add: demo_defs body_or_default_def)
  show ?thesis
    using falsy_field_400 [OF m k _ p] by (simp add: nullish_def)
qed

subsection \<open>Bodies that are not objects\<close>

text \<open>
  C9, as stated, fails: the body \<open>5\<close> is valid JSON and not an object, yet destructuring a
  number does not throw; the fields are undefined and the response is the 400 for
  missing fields, not 500.
\<close>

theorem number_body_400:
  "JSON_parse demo_world (body_or_default (post ''5'')) = Inr (Num 5)
   \<and> not_an_object (Num 5)
   \<and> handler demo_world (post ''5'') = (missing_fields_response, [])
   \<and> statusCode (fst (handler demo_world (post ''5''))) = 400"
proof -
  have m: "httpMethod (post ''5'') = ''POST''" by (simp add: post_def)
  have k: "GOOGLE_MAPS_API_KEY demo_world = Some ''k''" by (simp add: demo_world_def)
  have p: "JSON_parse demo_world (body_or_default (post ''5'')) = Inr (Num 5)"
    by (simp add: demo_defs body_or_default_def)
  have h: "handler demo_world (post ''5'') = (missing_fields_response, [])"
    using m k p
    by (simp add: handler_def handler_try_def missing_fields_response_def nullish_def)
  show ?thesis
    using p h by (simp add: not_an_object_def missing_fields_response_def json_def)
qed

text \<open>
  C9, amended. For every POST request with the credential configured: when the body is
  the JSON literal null, destructuring throws and the handler answers 500 through its
  outer catch (error and hint, no effect); when the body is any other JSON value that is
  not an object (a number, a string, a boolean, an array), destructuring yields undefined
  fields and the answer is the 400 for missing fields; an absent or empty body is parsed
  as the empty object and yields the same 400. The older handler has the same statuses.
\<close>

theorem null_body_500_others_400:
  assumes "httpMethod event = ''POST''"
    and "GOOGLE_MAPS_API_KEY w = Some K" and "K \<noteq> []"
  shows "(JSON_parse w (body_or_default event) = Inr Null \<longrightarrow>
            handler w event =
              (json handler_headers 500
                 (Obj [(''error'', Str (message (cannot_destructure ''businessType'' ''body'' Null))),
                       (''hint'', Str ''Check Netlify Functions logs for details.'')]), [])
            \<and> statusCode (fst (handler_pathfinder w event)) = 500)
       \<and> (\<forall>v. JSON_parse w (body_or_default event) = Inr v \<and> not_an_object v \<and> \<not> nullish v \<longrightarrow>
            handler w event = (missing_fields_response, [])
            \<and> statusCode (fst (handler_pathfinder w event)) = 400)
       \<and> ((event_body event = None \<or> event_body event = Some []) \<and> JSON_parse w ''{}'' = Inr (Obj []) \<longrightarrow>
            handler w event = (missing_fields_response, [])
            \<and> statusCode (fst (handler_pathfinder w event)) = 400)"
proof (intro conjI impI allI)
  assume "JSON_parse w (body_or_default event) = Inr Null"
  with assms show "handler w event =
              (json handler_headers 500
                 (Obj [(''error'', Str (message (cannot_destructure ''businessType'' ''body'' Null))),
                       (''hint'', Str ''Check Netlify Functions logs for details.'')]), [])"
    by (simp add: handler_def handler_try_def nullish_def or_else_def cannot_destructure_def)
next
  assume "JSON_parse w (body_or_default event) = Inr Null"
  with assms show "statusCode (fst (handler_pathfinder w event)) = 500"
    by (simp add: handler_pathfinder_def handler_try_pathfinder_def nullish_def json_def)
next
  fix v assume "JSON_parse w (body_or_default event) = Inr v \<and> not_an_object v \<and> \<not> nullish v"
  with assms show "handler w event = (missing_fields_response, [])"
    by (cases v) (simp_all add: handler_def handler_try_def missing_fields_response_def not_an_object_def)
next
  fix v assume "JSON_parse w (body_or_default event) = Inr v \<and> not_an_object v \<and> \<not> nullish v"
  with assms show "statusCode (fst (handler_pathfinder w event)) = 400"
    by (cases v) (simp_all add: handler_pathfinder_def handler_try_pathfinder_def not_an_object_def json_def)
next
  assume "(event_body event = None \<or> event_body event = Some []) \<and> JSON_parse w ''{}'' = Inr (Obj [])"
  with assms show "handler w event = (missing_fields_response, [])"
    by (auto simp: handler_def handler_try_def missing_fields_response_def body_or_default_def nullish_def)
next
  assume "(event_body event = None \<or> event_body event = Some []) \<and> JSON_parse w ''{}'' = Inr (Obj [])"
  with assms show "statusCode (fst (handler_pathfinder w event)) = 400"
    by (auto simp: handler_pathfinder_def handler_try_pathfinder_def body_or_default_def nullish_def json_def)
qed

theorem null_body_500_others_400_witness:
  "statusCode (fst (handler demo_world (post ''null''))) = 500
   \<and> snd (handler demo_world (post ''null'')) = []
   \<and> handler demo_world \<lparr>httpMethod = ''POST'', event_body = None\<rparr> = (missing_fields_response, [])"
proof -
  have k: "GOOGLE_MAPS_API_KEY demo_world = Some ''k''" by (simp add: demo_world_def)
  have p: "JSON_parse demo_world (body_or_default (post ''null'')) = Inr Null"
    by (simp add: demo_defs body_or_default_def)
  have e: "JSON_parse demo_world ''{}'' = Inr (Obj [])"
    by (simp add: demo_defs)
  have m1: "httpMethod (post ''null'') = ''POST''" by (simp add: post_def)
  show ?thesis
    using null_body_500_others_400 [OF m1 k] p
          null_body_500_others_400 [of "\<lparr>httpMethod = ''POST'', event_body = None\<rparr>" demo_world "''k''"] k e
    by (simp add: json_def)
qed

subsection \<open>Every field of every entry\<close>






subsection \<open>The matcher finds the first token\<close>

lemma after_Nil [simp]: "after prev [] = prev"
  by (simp add: after_def)

lemma after_Cons [simp]: "after prev (c # a) = after (Some c) a"
  by (simp add: after_def)






























text \<open>The examples of the spec (section 8), evaluated.\<close>

lemma extractor_examples:
  "str_match mailto_re ''<a href=\"mailto:test@example.com\">'' = Some ''test@example.com''"
  "str_match mailto_re ''Write to jane@company.co.nz today'' = None"
  "str_match plain_re ''Write to jane@company.co.nz today'' = Some ''jane@company.co.nz''"
  "str_match mailto_re ''<p>No address here</p>'' = None"
  "str_match plain_re ''<p>No address here</p>'' = None"
  by (simp_all add: re_defs)

subsection \<open>What the email extractor returns\<close>




end
